theory Spec2Isabelle
  imports Complex_Main "HOL-Library.AList" "HOL-Library.Multiset"
begin

section \<open>Python values\<close>

text \<open>
  Mission steps, command frames, telemetry frames and mission-file headers are Python
  dictionaries built by the program or produced by \<^verbatim>\<open>json.loads\<close>. A value is one of
  the JSON shapes. A Python \<^verbatim>\<open>float\<close> is modelled by a real number (exact arithmetic,
  no NaN and no infinities), a Python \<^verbatim>\<open>int\<close> by an integer, \<^verbatim>\<open>None\<close> by \<open>JNull\<close>.
  A dictionary with string keys is an association list in insertion order.
\<close>

datatype jval =
    JNull
  | JBool bool
  | JInt int
  | JFloat real
  | JStr string
  | JArr "jval list"
  | JObj "(string \<times> jval) list"

type_synonym pydict = "(string \<times> jval) list"

datatype py_error =
    KeyError
  | TypeError
  | AttributeError
  | IndexError
  | ValueError
  | ZeroDivisionError
  | JSONDecodeError
  | FileNotFoundError

text \<open>\<^verbatim>\<open>d.get(k)\<close>: the value stored under \<open>k\<close>, \<^verbatim>\<open>None\<close> when the key is absent.\<close>

definition dict_get :: "pydict \<Rightarrow> string \<Rightarrow> jval" where
  "dict_get d k = (case map_of d k of None \<Rightarrow> JNull | Some v \<Rightarrow> v)"

text \<open>\<^verbatim>\<open>d.get(k, dflt)\<close>.\<close>

definition dict_get_default :: "pydict \<Rightarrow> string \<Rightarrow> jval \<Rightarrow> jval" where
  "dict_get_default d k dflt = (case map_of d k of None \<Rightarrow> dflt | Some v \<Rightarrow> v)"

text \<open>\<^verbatim>\<open>k in d\<close>.\<close>

definition dict_contains :: "pydict \<Rightarrow> string \<Rightarrow> bool" where
  "dict_contains d k = (map_of d k \<noteq> None)"

text \<open>\<^verbatim>\<open>d[k]\<close>: raises \<^verbatim>\<open>KeyError\<close> when the key is absent.\<close>

definition dict_index :: "pydict \<Rightarrow> string \<Rightarrow> py_error + jval" where
  "dict_index d k = (case map_of d k of None \<Rightarrow> Inl KeyError | Some v \<Rightarrow> Inr v)"

text \<open>
  \<^verbatim>\<open>v == n\<close> for an integer literal \<open>n\<close>: Python compares numbers by value across
  \<^verbatim>\<open>int\<close>, \<^verbatim>\<open>float\<close> and \<^verbatim>\<open>bool\<close> (\<^verbatim>\<open>104.0 == 104\<close>, \<^verbatim>\<open>True == 1\<close>); any other
  value is different from every number.
\<close>

fun py_eq_int :: "jval \<Rightarrow> int \<Rightarrow> bool" where
  "py_eq_int (JInt i) n = (i = n)"
| "py_eq_int (JFloat r) n = (r = of_int n)"
| "py_eq_int (JBool b) n = ((if b then 1 else 0) = n)"
| "py_eq_int _ n = False"

text \<open>The number a value stands for in arithmetic, if it is a number.\<close>

fun num_of :: "jval \<Rightarrow> real option" where
  "num_of (JInt i) = Some (of_int i)"
| "num_of (JFloat r) = Some r"
| "num_of (JBool b) = Some (if b then 1 else 0)"
| "num_of _ = None"

text \<open>Truth value of a Python object, as \<^verbatim>\<open>if v:\<close> and \<^verbatim>\<open>not v\<close> take it.\<close>

fun truthy :: "jval \<Rightarrow> bool" where
  "truthy JNull = False"
| "truthy (JBool b) = b"
| "truthy (JInt i) = (i \<noteq> 0)"
| "truthy (JFloat r) = (r \<noteq> 0)"
| "truthy (JStr s) = (s \<noteq> [])"
| "truthy (JArr xs) = (xs \<noteq> [])"
| "truthy (JObj d) = (d \<noteq> [])"

section \<open>The robot controller: state and effects\<close>

text \<open>
  What a controller does besides changing its own attributes is recorded, in program
  order, in a trace: callbacks queued for the GUI thread (\<^verbatim>\<open>queue_gui_update\<close>, named by
  the fixed part of their text; the interpolated values are formatted only when the GUI
  thread runs the callback), error dialogs (\<^verbatim>\<open>show_error\<close>), command frames handed to
  \<^verbatim>\<open>send_command_in_thread\<close>, blocking waits (\<^verbatim>\<open>time.sleep\<close>), the taking and
  releasing of \<^verbatim>\<open>movement_lock\<close>, and every store into \<^verbatim>\<open>current_position\<close> (axis and
  value). Calls of the logger are left out.
\<close>

datatype event =
    StatusBar string
  | ProgressBar real
  | ShowError string string
  | SendCommand jval
  | Sleep real
  | LockAcquire
  | LockRelease
  | PoseWrite string jval

text \<open>
  \<^verbatim>\<open>current_position\<close> is a dictionary that always has exactly the keys
  \<^verbatim>\<open>x\<close>, \<^verbatim>\<open>y\<close>, \<^verbatim>\<open>z\<close>, \<^verbatim>\<open>t\<close>; telemetry may store any JSON value under them.
\<close>

record pose =
  pos_x :: jval
  pos_y :: jval
  pos_z :: jval
  pos_t :: jval

text \<open>A stored mission: \<^verbatim>\<open>{"name": ..., "intro": ..., "steps": [...]}\<close>.\<close>

record mission =
  name :: jval
  intro :: jval
  steps :: "jval list"

text \<open>
  The attributes of a \<^verbatim>\<open>RobotControlFrame\<close> that the modelled methods read or write.
  \<open>missions\<close> is the dictionary of missions in insertion order, under hashed keys (see
  \<open>hash_key\<close> below). \<open>run_threads\<close> lists the \<^verbatim>\<open>run_mission\<close> threads started so far
  and not known to have finished, each by the \<^verbatim>\<open>times\<close> it captured;
  \<open>mission_execution_thread\<close> is the handle of the one started last (its position in
  that list). \<open>mission_steps_tree\<close> holds the tag of each row of the step viewer.
\<close>

record robot =
  current_position :: pose
  default_spd :: real
  missions :: "(jval \<times> mission) list"
  selected_mission :: jval
  speed_scale :: real
  distance_scale :: real
  base_delay :: real
  max_delay :: real
  mission_execution_stop_event :: bool
  mission_execution_thread :: "nat option"
  run_threads :: "int list"
  dragging_item :: "string option"
  dragging_start_index :: "nat option"
  mission_steps_tree :: "string list"
  trace :: "event list"

text \<open>The attribute values set by \<^verbatim>\<open>__init__\<close>.\<close>

definition new_robot :: robot where
  "new_robot =
     \<lparr>current_position = \<lparr>pos_x = JFloat 235, pos_y = JFloat 0, pos_z = JFloat 234,
                           pos_t = JFloat (314 / 100)\<rparr>,
      default_spd = 5 / 2,
      missions = [],
      selected_mission = JNull,
      speed_scale = 1,
      distance_scale = 100,
      base_delay = 1 / 2,
      max_delay = 2,
      mission_execution_stop_event = False,
      mission_execution_thread = None,
      run_threads = [],
      dragging_item = None,
      dragging_start_index = None,
      mission_steps_tree = [],
      trace = []\<rparr>"

definition emit :: "event \<Rightarrow> robot \<Rightarrow> robot" where
  "emit e st = st\<lparr>trace := trace st @ [e]\<rparr>"

text \<open>\<^verbatim>\<open>self.current_position[k] = v\<close> for one of the four axis keys.\<close>

definition set_axis :: "string \<Rightarrow> jval \<Rightarrow> robot \<Rightarrow> robot" where
  "set_axis k v st =
     (let cur = current_position st in
      emit (PoseWrite k v)
        (st\<lparr>current_position :=
            (if k = ''x'' then cur\<lparr>pos_x := v\<rparr>
             else if k = ''y'' then cur\<lparr>pos_y := v\<rparr>
             else if k = ''z'' then cur\<lparr>pos_z := v\<rparr>
             else if k = ''t'' then cur\<lparr>pos_t := v\<rparr>
             else cur)\<rparr>))"

text \<open>Sequencing of computations that may raise.\<close>

definition bind_err :: "'e + 'a \<Rightarrow> ('a \<Rightarrow> 'e + 'b) \<Rightarrow> 'e + 'b" where
  "bind_err m f = (case m of Inl e \<Rightarrow> Inl e | Inr v \<Rightarrow> f v)"

section \<open>Executing one step\<close>

text \<open>
  \<^verbatim>\<open>abs(self.current_position[k] - step[k])\<close>: \<^verbatim>\<open>KeyError\<close> when the step has no
  such field, \<^verbatim>\<open>TypeError\<close> when one of the two values is not a number.
\<close>

definition axis_delta :: "jval \<Rightarrow> pydict \<Rightarrow> string \<Rightarrow> py_error + real" where
  "axis_delta cur step k =
     (case map_of step k of
        None \<Rightarrow> Inl KeyError
      | Some v \<Rightarrow>
          (case (num_of cur, num_of v) of
             (Some a, Some b) \<Rightarrow> Inr \<bar>a - b\<bar>
           | _ \<Rightarrow> Inl TypeError))"

text \<open>\<^verbatim>\<open>mx = max(dx, dy, dz)\<close> of \<^verbatim>\<open>execute_step\<close>.\<close>

definition max_axis_delta :: "robot \<Rightarrow> pydict \<Rightarrow> py_error + real" where
  "max_axis_delta st step =
     bind_err (axis_delta (pos_x (current_position st)) step ''x'') (\<lambda>dx.
     bind_err (axis_delta (pos_y (current_position st)) step ''y'') (\<lambda>dy.
     bind_err (axis_delta (pos_z (current_position st)) step ''z'') (\<lambda>dz.
     Inr (max dx (max dy dz)))))"

text \<open>\<^verbatim>\<open>spd = step.get("spd", self.default_spd)\<close>.\<close>

definition step_spd :: "robot \<Rightarrow> pydict \<Rightarrow> jval" where
  "step_spd st step = dict_get_default step ''spd'' (JFloat (default_spd st))"

text \<open>
  The two assignments to \<^verbatim>\<open>tc\<close>. Dividing by a value that is not a number raises
  \<^verbatim>\<open>TypeError\<close>, dividing by zero raises \<^verbatim>\<open>ZeroDivisionError\<close>.
\<close>

definition settle_time :: "robot \<Rightarrow> real \<Rightarrow> jval \<Rightarrow> py_error + real" where
  "settle_time st mx spd =
     (if distance_scale st = 0 then Inl ZeroDivisionError
      else case num_of spd of
        None \<Rightarrow> Inl TypeError
      | Some s \<Rightarrow>
          if s = 0 then Inl ZeroDivisionError
          else Inr (min ((mx / distance_scale st) * (speed_scale st / s) + base_delay st)
                        (max_delay st)))"

definition movement_time :: "robot \<Rightarrow> pydict \<Rightarrow> py_error + real" where
  "movement_time st step =
     bind_err (max_axis_delta st step) (\<lambda>mx. settle_time st mx (step_spd st step))"

text \<open>\<^verbatim>\<open>time.sleep(secs)\<close> raises \<^verbatim>\<open>ValueError\<close> for a negative length.\<close>

definition sleep :: "real \<Rightarrow> robot \<Rightarrow> robot \<times> py_error option" where
  "sleep secs st = (if secs < 0 then (st, Some ValueError) else (emit (Sleep secs) st, None))"

text \<open>
  The movement branch after \<^verbatim>\<open>tc\<close> is known: send, report, sleep, then commit the
  target pose under the lock. The dictionary literal passed to \<^verbatim>\<open>update\<close> is
  built inside the \<^verbatim>\<open>with\<close> block before anything is stored, so a step without
  \<^verbatim>\<open>t\<close> raises there, after the lock was taken, and the lock is released on the way
  out.
\<close>

definition commit_pose :: "pydict \<Rightarrow> robot \<Rightarrow> robot \<times> py_error option" where
  "commit_pose step st =
     (let st1 = emit LockAcquire st in
      case (map_of step ''x'', map_of step ''y'', map_of step ''z'', map_of step ''t'') of
        (Some vx, Some vy, Some vz, Some vt) \<Rightarrow>
          (emit LockRelease
             (emit (StatusBar ''Position updated to'')
                (set_axis ''t'' vt (set_axis ''z'' vz (set_axis ''y'' vy (set_axis ''x'' vx st1))))),
           None)
      | _ \<Rightarrow> (emit LockRelease st1, Some KeyError))"

definition execute_movement :: "robot \<Rightarrow> pydict \<Rightarrow> robot \<times> py_error option" where
  "execute_movement st step =
     (case movement_time st step of
        Inl e \<Rightarrow> (st, Some e)
      | Inr tc \<Rightarrow>
          (let st1 = emit (StatusBar ''Movement command executed.'')
                       (emit (SendCommand (JObj step)) st)
           in case sleep tc st1 of
                (st2, Some e) \<Rightarrow> (st2, Some e)
              | (st2, None) \<Rightarrow> commit_pose step st2))"

text \<open>
  The delay branch: \<^verbatim>\<open>time.sleep(delay_ms / 1000.0)\<close> with
  \<^verbatim>\<open>delay_ms = step.get("cmd", 1000)\<close>.
\<close>

definition execute_delay :: "robot \<Rightarrow> pydict \<Rightarrow> robot \<times> py_error option" where
  "execute_delay st step =
     (let delay_ms = dict_get_default step ''cmd'' (JInt 1000);
          st1 = emit (StatusBar ''Executing delay'') st
      in case num_of delay_ms of
           None \<Rightarrow> (st1, Some TypeError)
         | Some ms \<Rightarrow>
             (case sleep (ms / 1000) st1 of
                (st2, Some e) \<Rightarrow> (st2, Some e)
              | (st2, None) \<Rightarrow> (emit (StatusBar ''Delay completed'') st2, None)))"

text \<open>
  \<^verbatim>\<open>execute_step\<close>. The result is the state reached and the exception raised, if any.
  Indexing a step that is not a dictionary by \<^verbatim>\<open>"T"\<close> raises \<^verbatim>\<open>TypeError\<close>, a
  dictionary without \<^verbatim>\<open>T\<close> raises \<^verbatim>\<open>KeyError\<close>.
\<close>

definition execute_step :: "robot \<Rightarrow> jval \<Rightarrow> robot \<times> py_error option" where
  "execute_step st stp =
     (case stp of
        JObj step \<Rightarrow>
          (case map_of step ''T'' of
             None \<Rightarrow> (st, Some KeyError)
           | Some t_value \<Rightarrow>
               if py_eq_int t_value 104 then execute_movement st step
               else if py_eq_int t_value 111 then execute_delay st step
               else if py_eq_int t_value 113 \<or> py_eq_int t_value 114
                       \<or> py_eq_int t_value 210 \<or> py_eq_int t_value 112
               then (emit (StatusBar ''Command executed.'') (emit (SendCommand stp) st), None)
               else (emit (StatusBar ''Unknown Step Type'') st, None))
      | _ \<Rightarrow> (st, Some TypeError))"

section \<open>Inbound telemetry\<close>

text \<open>
  \<^verbatim>\<open>handle_serial_data\<close>: a frame with \<^verbatim>\<open>T == 1051\<close> overwrites each pose axis with
  \<^verbatim>\<open>data.get(axis, current value)\<close> inside \<^verbatim>\<open>with self.movement_lock\<close>; a frame with
  \<^verbatim>\<open>T == 105\<close> or any other code is only logged. A decoded frame that is not a dictionary
  has no \<^verbatim>\<open>get\<close>: \<^verbatim>\<open>AttributeError\<close>.
\<close>

definition handle_serial_data :: "robot \<Rightarrow> jval \<Rightarrow> robot \<times> py_error option" where
  "handle_serial_data st frame =
     (case frame of
        JObj data \<Rightarrow>
          (let t_value = dict_get data ''T'' in
           if py_eq_int t_value 1051 then
             (let st1 = emit LockAcquire st;
                  st2 = set_axis ''x'' (dict_get_default data ''x'' (pos_x (current_position st1))) st1;
                  st3 = set_axis ''y'' (dict_get_default data ''y'' (pos_y (current_position st2))) st2;
                  st4 = set_axis ''z'' (dict_get_default data ''z'' (pos_z (current_position st3))) st3;
                  st5 = set_axis ''t'' (dict_get_default data ''t'' (pos_t (current_position st4))) st4
              in (emit LockRelease (emit (StatusBar ''Position updated'') st5), None))
           else if py_eq_int t_value 105 then (st, None)
           else (st, None))
      | _ \<Rightarrow> (st, Some AttributeError))"

section \<open>Step classification\<close>

text \<open>
  \<^verbatim>\<open>get_step_type\<close> of \<^verbatim>\<open>robot_control_frame.py\<close>: an \<^verbatim>\<open>if\<close>/\<^verbatim>\<open>elif\<close> chain on
  \<^verbatim>\<open>step.get("T")\<close>, returning the name of the step kind.
\<close>

definition get_step_type :: "pydict \<Rightarrow> string" where
  "get_step_type step =
     (let t_value = dict_get step ''T'' in
      if py_eq_int t_value 104 then ''movement''
      else if py_eq_int t_value 113 then
        (if dict_contains step ''pwm_a'' \<and> dict_contains step ''pwm_b'' then ''suction''
         else ''relay'')
      else if py_eq_int t_value 111 then ''delay''
      else if py_eq_int t_value 114 then ''led''
      else if py_eq_int t_value 210 then ''torque''
      else if py_eq_int t_value 112 then ''dynamic_adaptation''
      else ''other'')"

text \<open>
  The classification as the specification words it: a variant chosen from the
  message-type code and from whether both pwm fields are present.
\<close>

datatype step_kind =
  Movement | Suction | Relay | Delay | LED | Torque | DynamicAdaptation | Other

fun kind_name :: "step_kind \<Rightarrow> string" where
  "kind_name Movement = ''movement''"
| "kind_name Suction = ''suction''"
| "kind_name Relay = ''relay''"
| "kind_name Delay = ''delay''"
| "kind_name LED = ''led''"
| "kind_name Torque = ''torque''"
| "kind_name DynamicAdaptation = ''dynamic_adaptation''"
| "kind_name Other = ''other''"

text \<open>The message-type code of a step: the integer its \<^verbatim>\<open>T\<close> field equals, if any.\<close>

fun code_of_value :: "jval \<Rightarrow> int option" where
  "code_of_value (JInt i) = Some i"
| "code_of_value (JFloat r) = (if of_int \<lfloor>r\<rfloor> = r then Some \<lfloor>r\<rfloor> else None)"
| "code_of_value (JBool b) = Some (if b then 1 else 0)"
| "code_of_value _ = None"

definition step_code :: "pydict \<Rightarrow> int option" where
  "step_code step = code_of_value (dict_get step ''T'')"

definition classify :: "int option \<Rightarrow> bool \<Rightarrow> bool \<Rightarrow> step_kind" where
  "classify code has_pwm_a has_pwm_b =
     (if code = Some 104 then Movement
      else if code = Some 113 then (if has_pwm_a \<and> has_pwm_b then Suction else Relay)
      else if code = Some 111 then Delay
      else if code = Some 114 then LED
      else if code = Some 210 then Torque
      else if code = Some 112 then DynamicAdaptation
      else Other)"

section \<open>The mission set\<close>

text \<open>
  \<^verbatim>\<open>self.missions\<close> is a dictionary keyed by mission name. A name read from a mission
  file can be any JSON value. Lists and dictionaries are unhashable (\<^verbatim>\<open>TypeError\<close>);
  numbers that are equal are the same key (\<^verbatim>\<open>1\<close>, \<^verbatim>\<open>1.0\<close> and \<^verbatim>\<open>True\<close>), so a key is
  stored under a canonical representative.
\<close>

fun hash_key :: "jval \<Rightarrow> py_error + jval" where
  "hash_key (JArr xs) = Inl TypeError"
| "hash_key (JObj d) = Inl TypeError"
| "hash_key (JBool b) = Inr (JInt (if b then 1 else 0))"
| "hash_key (JFloat r) = Inr (if of_int \<lfloor>r\<rfloor> = r then JInt \<lfloor>r\<rfloor> else JFloat r)"
| "hash_key v = Inr v"

text \<open>\<^verbatim>\<open>k in self.missions\<close>, \<^verbatim>\<open>self.missions[k]\<close> and \<^verbatim>\<open>self.missions[k] = m\<close>.\<close>

definition missions_contains :: "(jval \<times> mission) list \<Rightarrow> jval \<Rightarrow> py_error + bool" where
  "missions_contains ms k = bind_err (hash_key k) (\<lambda>h. Inr (map_of ms h \<noteq> None))"

definition missions_lookup :: "(jval \<times> mission) list \<Rightarrow> jval \<Rightarrow> py_error + mission" where
  "missions_lookup ms k =
     bind_err (hash_key k) (\<lambda>h. case map_of ms h of None \<Rightarrow> Inl KeyError | Some m \<Rightarrow> Inr m)"

definition missions_store ::
  "(jval \<times> mission) list \<Rightarrow> jval \<Rightarrow> mission \<Rightarrow> py_error + (jval \<times> mission) list" where
  "missions_store ms k m = bind_err (hash_key k) (\<lambda>h. Inr (AList.update h m ms))"

section \<open>The step viewer\<close>

text \<open>\<^verbatim>\<open>v > 0\<close>: a \<^verbatim>\<open>TypeError\<close> unless \<open>v\<close> is a number.\<close>

definition py_gt_zero :: "jval \<Rightarrow> py_error + bool" where
  "py_gt_zero v = (case num_of v of None \<Rightarrow> Inl TypeError | Some r \<Rightarrow> Inr (0 < r))"

text \<open>
  One round of the loop of \<^verbatim>\<open>update_mission_steps_viewer\<close>: the tag of the row made for
  a step, or the exception raised while its details text is built. A step that is not a
  dictionary has no \<^verbatim>\<open>get\<close>; a movement row reads \<^verbatim>\<open>s['x']\<close> to \<^verbatim>\<open>s['acc']\<close>, a delay
  row \<^verbatim>\<open>s['cmd']\<close>; suction and LED rows compare a field with 0.
\<close>

definition viewer_row :: "jval \<Rightarrow> py_error + string" where
  "viewer_row s =
     (case s of
        JObj d \<Rightarrow>
          (let stype = get_step_type d in
           if stype = ''movement'' then
             (if list_all (dict_contains d) [''x'', ''y'', ''z'', ''t'', ''spd'', ''acc'']
              then Inr stype else Inl KeyError)
           else if stype = ''suction'' then
             bind_err (py_gt_zero (dict_get_default d ''pwm_b'' (JInt 0))) (\<lambda>_. Inr stype)
           else if stype = ''delay'' then
             (if dict_contains d ''cmd'' then Inr stype else Inl KeyError)
           else if stype = ''led'' then
             bind_err (py_gt_zero (dict_get_default d ''led'' (JInt 0))) (\<lambda>_. Inr stype)
           else Inr stype)
      | _ \<Rightarrow> Inl AttributeError)"

text \<open>The loop: rows are inserted one by one until a step raises.\<close>

fun viewer_rows :: "jval list \<Rightarrow> string list \<times> py_error option" where
  "viewer_rows [] = ([], None)"
| "viewer_rows (s # ss) =
     (case viewer_row s of
        Inl e \<Rightarrow> ([], Some e)
      | Inr tag \<Rightarrow> (case viewer_rows ss of (rows, err) \<Rightarrow> (tag # rows, err)))"

definition update_mission_steps_viewer :: "robot \<Rightarrow> robot \<times> py_error option" where
  "update_mission_steps_viewer st =
     (let st0 = st\<lparr>mission_steps_tree := []\<rparr> in
      case missions_contains (missions st) (selected_mission st) of
        Inl e \<Rightarrow> (st0, Some e)
      | Inr False \<Rightarrow> (st0, None)
      | Inr True \<Rightarrow>
          (case missions_lookup (missions st) (selected_mission st) of
             Inl e \<Rightarrow> (st0, Some e)
           | Inr m \<Rightarrow>
               (case viewer_rows (steps m) of
                  (rows, err) \<Rightarrow> (st0\<lparr>mission_steps_tree := rows\<rparr>, err))))"

section \<open>Mission files\<close>

text \<open>
  A text file is its list of lines. A line is taken by what \<^verbatim>\<open>json.loads(l.strip())\<close>
  makes of it: the JSON value it encodes, or not valid JSON at all. The line that
  \<^verbatim>\<open>json.dumps(v) + "\n"\<close> writes is then the line that encodes \<open>v\<close>: Python's \<^verbatim>\<open>json\<close>
  module is taken to read back what it wrote. The file system maps a path to the lines
  of the file there, if there is one; opening a file for writing is taken to succeed.
\<close>

datatype line = JsonText jval | NotJson string

type_synonym files = "string \<Rightarrow> line list option"

definition json_dumps :: "jval \<Rightarrow> line" where
  "json_dumps v = JsonText v"

fun json_loads :: "line \<Rightarrow> py_error + jval" where
  "json_loads (JsonText v) = Inr v"
| "json_loads (NotJson s) = Inl JSONDecodeError"

text \<open>\<^verbatim>\<open>[json.loads(l.strip()) for l in ls]\<close>: the first line that fails raises.\<close>

fun loads_all :: "line list \<Rightarrow> py_error + jval list" where
  "loads_all [] = Inr []"
| "loads_all (l # ls) =
     bind_err (json_loads l) (\<lambda>v. bind_err (loads_all ls) (\<lambda>vs. Inr (v # vs)))"

text \<open>\<^verbatim>\<open>header.get(k, dflt)\<close> on a decoded header, which need not be a dictionary.\<close>

definition header_get :: "jval \<Rightarrow> string \<Rightarrow> jval \<Rightarrow> py_error + jval" where
  "header_get header k dflt =
     (case header of JObj d \<Rightarrow> Inr (dict_get_default d k dflt) | _ \<Rightarrow> Inl AttributeError)"

text \<open>
  \<^verbatim>\<open>save_mission\<close>. \<open>file_path\<close> is what the save dialog returned, empty when it was
  cancelled. The header line is \<^verbatim>\<open>{"name": data["name"], "intro": "Mission"}\<close>.
\<close>

definition save_mission :: "robot \<Rightarrow> string \<Rightarrow> files \<Rightarrow> robot \<times> files" where
  "save_mission st file_path fs =
     (if \<not> truthy (selected_mission st) then
        (emit (ShowError ''Error'' ''No mission selected'') st, fs)
      else if file_path = [] then (st, fs)
      else case missions_lookup (missions st) (selected_mission st) of
        Inl e \<Rightarrow>
          (emit (StatusBar ''Failed to save mission'')
             (emit (ShowError ''Error'' ''Failed to save mission'') st), fs)
      | Inr data \<Rightarrow>
          (let header = JObj [(''name'', name data), (''intro'', JStr ''Mission'')];
               fs' = fs(file_path \<mapsto> json_dumps header # map json_dumps (steps data));
               cmd = JObj [(''T'', JInt 221), (''name'', selected_mission st)]
           in (emit (StatusBar ''Mission saved'') (emit (SendCommand cmd) st), fs')))"

text \<open>
  The \<^verbatim>\<open>try\<close> block of \<^verbatim>\<open>load_mission\<close>: the state reached and the exception raised,
  if any. \<open>ow\<close> is the answer to the overwrite question, asked only when the name is
  already in the mission set.
\<close>

definition load_mission_try :: "robot \<Rightarrow> string \<Rightarrow> bool \<Rightarrow> files \<Rightarrow> robot \<times> py_error option" where
  "load_mission_try st file_path ow fs =
     (case fs file_path of
        None \<Rightarrow> (st, Some FileNotFoundError)
      | Some [] \<Rightarrow> (st, Some IndexError)
      | Some (l # ls) \<Rightarrow>
          (case bind_err (json_loads l) (\<lambda>header.
                bind_err (header_get header ''name'' (JStr ''unnamed_mission'')) (\<lambda>nm.
                bind_err (loads_all ls) (\<lambda>stps.
                bind_err (missions_contains (missions st) nm) (\<lambda>present.
                Inr (header, nm, stps, present))))) of
             Inl e \<Rightarrow> (st, Some e)
           | Inr (header, nm, stps, present) \<Rightarrow>
               if present \<and> \<not> ow then (st, None)
               else
                 (case bind_err (header_get header ''intro'' (JStr ''Mission'')) (\<lambda>intr.
                         missions_store (missions st) nm
                           \<lparr>name = nm, intro = intr, steps = stps\<rparr>) of
                    Inl e \<Rightarrow> (st, Some e)
                  | Inr ms \<Rightarrow>
                      (case update_mission_steps_viewer
                              (st\<lparr>missions := ms, selected_mission := nm\<rparr>) of
                         (st1, Some e) \<Rightarrow> (st1, Some e)
                       | (st1, None) \<Rightarrow> (emit (StatusBar ''Mission loaded'') st1, None)))))"

text \<open>\<^verbatim>\<open>load_mission\<close>: nothing happens when the dialog is cancelled; any exception is reported.\<close>

definition load_mission :: "robot \<Rightarrow> string \<Rightarrow> bool \<Rightarrow> files \<Rightarrow> robot" where
  "load_mission st file_path ow fs =
     (if file_path = [] then st
      else case load_mission_try st file_path ow fs of
        (st1, None) \<Rightarrow> st1
      | (st1, Some e) \<Rightarrow>
          emit (StatusBar ''Failed to load mission'')
            (emit (ShowError ''Error'' ''Failed to load mission'') st1))"

section \<open>Playing a mission\<close>


text \<open>
  The body of the thread, \<^verbatim>\<open>run_mission\<close>. The stop event belongs to the controller and
  is set by other threads while the run goes on, so what the run sees of it is given from
  outside: \<open>flag k\<close> is what \<^verbatim>\<open>is_set()\<close> returns at the check made when \<open>k\<close> steps have
  been executed. The two nested \<^verbatim>\<open>for\<close> loops walk through the step list \<^verbatim>\<open>times\<close>
  times over; \<open>run_steps\<close> is that walk over the steps still to come.
\<close>

datatype run_outcome = Completed | Stopped | Failed py_error

fun run_steps ::
  "(nat \<Rightarrow> bool) \<Rightarrow> int \<Rightarrow> nat \<Rightarrow> jval list \<Rightarrow> robot \<Rightarrow> robot \<times> run_outcome \<times> nat" where
  "run_steps flag total_steps executed_steps [] st = (st, Completed, executed_steps)"
| "run_steps flag total_steps executed_steps (stp # rest) st =
     (if flag executed_steps then
        (emit (StatusBar ''Mission execution stopped.'') st, Stopped, executed_steps)
      else
        case execute_step st stp of
          (st1, Some e) \<Rightarrow> (st1, Failed e, executed_steps)
        | (st1, None) \<Rightarrow>
            run_steps flag total_steps (Suc executed_steps) rest
              (emit (ProgressBar (real (Suc executed_steps) / real_of_int total_steps * 100)) st1))"

definition run_mission :: "robot \<Rightarrow> int \<Rightarrow> (nat \<Rightarrow> bool) \<Rightarrow> robot \<times> run_outcome \<times> nat" where
  "run_mission st reps flag =
     (let failed = (\<lambda>s. emit (StatusBar ''Mission execution failed'')
                          (emit (ShowError ''Error'' ''Mission execution failed'') s)) in
      case missions_lookup (missions st) (selected_mission st) of
        Inl e \<Rightarrow> (failed st, Failed e, 0)
      | Inr m \<Rightarrow>
          (case run_steps flag (int (length (steps m)) * reps) 0
                  (concat (replicate (nat reps) (steps m))) st of
             (st1, Completed, n) \<Rightarrow>
               (emit (StatusBar ''Mission completed'') (emit (ProgressBar 100) st1), Completed, n)
           | (st1, Stopped, n) \<Rightarrow> (st1, Stopped, n)
           | (st1, Failed e, n) \<Rightarrow> (failed st1, Failed e, n)))"

section \<open>Reordering steps by drag and drop\<close>

text \<open>\<^verbatim>\<open>xs.pop(i)\<close> and \<^verbatim>\<open>xs.insert(i, v)\<close> for an index that is not negative.\<close>

fun list_pop :: "'a list \<Rightarrow> nat \<Rightarrow> py_error + ('a \<times> 'a list)" where
  "list_pop [] i = Inl IndexError"
| "list_pop (x # xs) 0 = Inr (x, xs)"
| "list_pop (x # xs) (Suc i) =
     (case list_pop xs i of Inl e \<Rightarrow> Inl e | Inr (y, ys) \<Rightarrow> Inr (y, x # ys))"

fun list_insert :: "'a list \<Rightarrow> nat \<Rightarrow> 'a \<Rightarrow> 'a list" where
  "list_insert xs 0 v = v # xs"
| "list_insert [] (Suc i) v = [v]"
| "list_insert (x # xs) (Suc i) v = x # list_insert xs i v"

text \<open>
  The \<^verbatim>\<open>try\<close> block of \<^verbatim>\<open>on_treeview_drop\<close>. \<open>drop_row\<close> is the index of the row under
  the pointer, \<open>None\<close> when the pointer is below the last row. Comparing with a start
  index that is \<^verbatim>\<open>None\<close> raises \<^verbatim>\<open>TypeError\<close>.
\<close>

definition drop_try :: "robot \<Rightarrow> nat option \<Rightarrow> robot \<times> py_error option" where
  "drop_try st drop_row =
     (case missions_lookup (missions st) (selected_mission st) of
        Inl e \<Rightarrow> (st, Some e)
      | Inr m \<Rightarrow>
          (let drop_index = (case drop_row of None \<Rightarrow> length (steps m) | Some j \<Rightarrow> j) in
           case dragging_start_index st of
             None \<Rightarrow> (st, Some TypeError)
           | Some start_index \<Rightarrow>
               (let drop_index = (if drop_index > start_index then drop_index - 1 else drop_index) in
                case list_pop (steps m) start_index of
                  Inl e \<Rightarrow> (st, Some e)
                | Inr (stp, rest) \<Rightarrow>
                    (case missions_store (missions st) (selected_mission st)
                            (m\<lparr>steps := list_insert rest drop_index stp\<rparr>) of
                       Inl e \<Rightarrow> (st, Some e)
                     | Inr ms \<Rightarrow>
                         (case update_mission_steps_viewer (st\<lparr>missions := ms\<rparr>) of
                            (st1, Some e) \<Rightarrow> (st1, Some e)
                          | (st1, None) \<Rightarrow> (emit (StatusBar ''Step moved'') st1, None))))))"

text \<open>
  \<^verbatim>\<open>on_treeview_drop\<close>: nothing without a dragged item; otherwise the \<^verbatim>\<open>try\<close> block,
  the report of an exception, and the \<^verbatim>\<open>finally\<close> block that forgets the drag.
\<close>

definition on_treeview_drop :: "robot \<Rightarrow> nat option \<Rightarrow> robot" where
  "on_treeview_drop st drop_row =
     (if dragging_item st = None \<or> dragging_item st = Some [] then st
      else
        (let st2 = (case drop_try st drop_row of
                      (st1, None) \<Rightarrow> st1
                    | (st1, Some e) \<Rightarrow>
                        emit (StatusBar ''Failed to move step'')
                          (emit (ShowError ''Error'' ''Failed to move step'') st1))
         in emit (StatusBar ''Drag-and-drop operation completed.'')
              (st2\<lparr>dragging_item := None, dragging_start_index := None\<rparr>)))"

text \<open>
  The reordering as the specification words it: remove the step at \<open>i\<close>, then insert it
  at the drop position, decreased by one when the drop position is after \<open>i\<close>.
\<close>

definition move_spec :: "'a list \<Rightarrow> nat \<Rightarrow> nat \<Rightarrow> 'a list" where
  "move_spec xs i j =
     (let d = (if i < j then j - 1 else j);
          rest = take i xs @ drop (Suc i) xs
      in take d rest @ [xs ! i] @ drop d rest)"

section \<open>Properties of step classification\<close>

lemma py_eq_int_code: "py_eq_int v n \<longleftrightarrow> code_of_value v = Some n"
  by (cases v) auto

text \<open>
  C2. The classification computed by \<open>get_step_type\<close> is the specified function of the
  step's message-type code and of the presence of the two pwm fields: 104 is a movement,
  113 a suction step when both \<^verbatim>\<open>pwm_a\<close> and \<^verbatim>\<open>pwm_b\<close> are present and a relay step
  otherwise, 111 a delay, 114 an LED step, 210 a torque step, 112 a dynamic-adaptation
  step, and everything else is of kind other. Hence two steps with the same code and the
  same pwm-field presence are classified alike.
\<close>

theorem get_step_type_classify:
  "get_step_type step =
     kind_name (classify (step_code step) (dict_contains step ''pwm_a'') (dict_contains step ''pwm_b''))
   \<and> (\<forall>step'. step_code step' = step_code step
        \<and> dict_contains step' ''pwm_a'' = dict_contains step ''pwm_a''
        \<and> dict_contains step' ''pwm_b'' = dict_contains step ''pwm_b''
        \<longrightarrow> get_step_type step' = get_step_type step)"
proof -
  have eq: "get_step_type s =
      kind_name (classify (step_code s) (dict_contains s ''pwm_a'') (dict_contains s ''pwm_b''))"
    for s
    by (simp add: get_step_type_def classify_def step_code_def py_eq_int_code Let_def)
  show ?thesis
    using eq [of step] by (simp add: eq)
qed

theorem get_step_type_classify_witness:
  "get_step_type [(''T'', JInt 113), (''pwm_a'', JInt 0), (''pwm_b'', JInt 255)] = ''suction''
   \<and> get_step_type [(''T'', JFloat 113), (''pwm_b'', JInt 255), (''pwm_a'', JInt 0), (''x'', JNull)]
       = get_step_type [(''T'', JInt 113), (''pwm_a'', JInt 0), (''pwm_b'', JInt 255)]"
proof -
  let ?s = "[(''T'', JInt 113), (''pwm_a'', JInt 0), (''pwm_b'', JInt 255)]"
  let ?s' = "[(''T'', JFloat 113), (''pwm_b'', JInt 255), (''pwm_a'', JInt 0), (''x'', JNull)]"
  have c: "step_code ?s' = step_code ?s
        \<and> dict_contains ?s' ''pwm_a'' = dict_contains ?s ''pwm_a''
        \<and> dict_contains ?s' ''pwm_b'' = dict_contains ?s ''pwm_b''"
    by (simp add: step_code_def dict_get_def dict_contains_def)
  from get_step_type_classify [of ?s] have
    k: "get_step_type ?s = kind_name (classify (step_code ?s) (dict_contains ?s ''pwm_a'') (dict_contains ?s ''pwm_b''))"
    and a: "step_code ?s' = step_code ?s
        \<and> dict_contains ?s' ''pwm_a'' = dict_contains ?s ''pwm_a''
        \<and> dict_contains ?s' ''pwm_b'' = dict_contains ?s ''pwm_b''
        \<longrightarrow> get_step_type ?s' = get_step_type ?s"
    by blast+
  from k have "get_step_type ?s = ''suction''"
    by (simp add: classify_def step_code_def dict_get_def dict_contains_def)
  moreover from a c have "get_step_type ?s' = get_step_type ?s" by blast
  ultimately show ?thesis by simp
qed

section \<open>Properties of the settle time\<close>









section \<open>Properties of telemetry handling\<close>

text \<open>
  C10. A frame whose \<^verbatim>\<open>T\<close> equals 1051 sets each pose axis to the frame's value when the
  frame has that field and leaves the axis at its prior value when it has not; all four
  stores happen between taking and releasing \<^verbatim>\<open>movement_lock\<close>. A frame with any other
  code changes nothing at all.
\<close>

theorem handle_serial_data_pose:
  "(py_eq_int (dict_get data ''T'') 1051 \<longrightarrow>
      (\<exists>st'. handle_serial_data st (JObj data) = (st', None)
        \<and> pos_x (current_position st') =
            (case map_of data ''x'' of Some v \<Rightarrow> v | None \<Rightarrow> pos_x (current_position st))
        \<and> pos_y (current_position st') =
            (case map_of data ''y'' of Some v \<Rightarrow> v | None \<Rightarrow> pos_y (current_position st))
        \<and> pos_z (current_position st') =
            (case map_of data ''z'' of Some v \<Rightarrow> v | None \<Rightarrow> pos_z (current_position st))
        \<and> pos_t (current_position st') =
            (case map_of data ''t'' of Some v \<Rightarrow> v | None \<Rightarrow> pos_t (current_position st))
        \<and> trace st' = trace st @
            [LockAcquire,
             PoseWrite ''x'' (pos_x (current_position st')),
             PoseWrite ''y'' (pos_y (current_position st')),
             PoseWrite ''z'' (pos_z (current_position st')),
             PoseWrite ''t'' (pos_t (current_position st')),
             StatusBar ''Position updated'',
             LockRelease]))
   \<and> (\<not> py_eq_int (dict_get data ''T'') 1051 \<longrightarrow>
        handle_serial_data st (JObj data) = (st, None))"
  by (simp add: handle_serial_data_def Let_def set_axis_def emit_def dict_get_default_def
      split: option.splits)

theorem handle_serial_data_pose_witness:
  "(\<exists>st'. handle_serial_data new_robot (JObj [(''T'', JInt 1051), (''x'', JFloat 10), (''z'', JInt 7)]) = (st', None)
      \<and> current_position st' = \<lparr>pos_x = JFloat 10, pos_y = JFloat 0, pos_z = JInt 7, pos_t = JFloat (314 / 100)\<rparr>)
   \<and> handle_serial_data new_robot (JObj [(''T'', JInt 105), (''x'', JFloat 10)]) = (new_robot, None)"
proof -
  let ?d = "[(''T'', JInt 1051), (''x'', JFloat 10), (''z'', JInt 7)]"
  let ?e = "[(''T'', JInt 105), (''x'', JFloat 10)]"
  have a: "py_eq_int (dict_get ?d ''T'') 1051" by (simp add: dict_get_def)
  have b: "\<not> py_eq_int (dict_get ?e ''T'') 1051" by (simp add: dict_get_def)
  from handle_serial_data_pose [of ?d new_robot] a obtain st' where
    "handle_serial_data new_robot (JObj ?d) = (st', None)"
    "pos_x (current_position st') = JFloat 10"
    "pos_y (current_position st') = pos_y (current_position new_robot)"
    "pos_z (current_position st') = JInt 7"
    "pos_t (current_position st') = pos_t (current_position new_robot)"
    by auto
  then have "handle_serial_data new_robot (JObj ?d) = (st', None)
      \<and> current_position st' = \<lparr>pos_x = JFloat 10, pos_y = JFloat 0, pos_z = JInt 7, pos_t = JFloat (314 / 100)\<rparr>"
    by (cases "current_position st'") (simp add: new_robot_def)
  moreover from handle_serial_data_pose [of ?e new_robot] b
  have "handle_serial_data new_robot (JObj ?e) = (new_robot, None)" by blast
  ultimately show ?thesis by blast
qed

section \<open>Properties of starting a run\<close>




section \<open>Properties of mission files\<close>

lemma loads_all_bad:
  "NotJson s \<in> set ls \<Longrightarrow> loads_all ls = Inl JSONDecodeError"
proof (induction ls)
  case Nil
  then show ?case by simp
next
  case (Cons l ls)
  show ?case
  proof (cases l)
    case (JsonText v)
    with Cons show ?thesis by (simp add: bind_err_def)
  next
    case (NotJson t)
    then show ?thesis by (simp add: bind_err_def)
  qed
qed

text \<open>
  C9. When some line of the mission file, the header line or a step line, is not valid
  JSON, loading fails as a whole: the failure is reported and the controller is otherwise
  as before, so the mission set and the selected mission are unchanged.
\<close>

theorem load_mission_invalid_json:
  assumes path: "file_path \<noteq> []"
    and fl: "fs file_path = Some ls"
    and bad: "NotJson s \<in> set ls"
  shows "load_mission st file_path ow fs =
           emit (StatusBar ''Failed to load mission'')
             (emit (ShowError ''Error'' ''Failed to load mission'') st)
       \<and> missions (load_mission st file_path ow fs) = missions st
       \<and> selected_mission (load_mission st file_path ow fs) = selected_mission st"
proof -
  from bad obtain l rest where ls: "ls = l # rest" by (cases ls) auto
  have "\<exists>e. load_mission_try st file_path ow fs = (st, Some e)"
  proof (cases l)
    case (NotJson t)
    with fl ls show ?thesis by (simp add: load_mission_try_def bind_err_def)
  next
    case (JsonText header)
    with bad ls have "NotJson s \<in> set rest" by auto
    then have r: "loads_all rest = Inl JSONDecodeError" by (rule loads_all_bad)
    show ?thesis
    proof (cases "header_get header ''name'' (JStr ''unnamed_mission'')")
      case (Inl e)
      with fl ls JsonText show ?thesis by (simp add: load_mission_try_def bind_err_def)
    next
      case (Inr nm)
      with fl ls JsonText r show ?thesis by (simp add: load_mission_try_def bind_err_def)
    qed
  qed
  then obtain e where "load_mission_try st file_path ow fs = (st, Some e)" ..
  with path have "load_mission st file_path ow fs =
           emit (StatusBar ''Failed to load mission'')
             (emit (ShowError ''Error'' ''Failed to load mission'') st)"
    by (simp add: load_mission_def)
  then show ?thesis by (simp add: emit_def)
qed

theorem load_mission_invalid_json_witness:
  "missions (load_mission new_robot ''a.mission'' True
      (\<lambda>p. if p = ''a.mission''
           then Some [JsonText (JObj [(''name'', JStr ''m'')]), NotJson ''{oops'']
           else None)) = []
   \<and> selected_mission (load_mission new_robot ''a.mission'' True
      (\<lambda>p. if p = ''a.mission''
           then Some [JsonText (JObj [(''name'', JStr ''m'')]), NotJson ''{oops'']
           else None)) = JNull"
proof -
  let ?ls = "[JsonText (JObj [(''name'', JStr ''m'')]), NotJson ''{oops'']"
  let ?fs = "\<lambda>p. if p = ''a.mission'' then Some ?ls else None"
  have 1: "''a.mission'' \<noteq> []" by simp
  have 2: "?fs ''a.mission'' = Some ?ls" by simp
  have 3: "NotJson ''{oops'' \<in> set ?ls" by simp
  from load_mission_invalid_json
         [where file_path = "''a.mission''" and fs = ?fs and ls = ?ls and s = "''{oops''"
            and st = new_robot and ow = True] 1 2 3
  have "missions (load_mission new_robot ''a.mission'' True ?fs) = missions new_robot
      \<and> selected_mission (load_mission new_robot ''a.mission'' True ?fs) = selected_mission new_robot"
    by blast
  then show ?thesis
    by (simp add: new_robot_def)
qed

lemma loads_all_dumps: "loads_all (map json_dumps vs) = Inr vs"
  by (induction vs) (simp_all add: json_dumps_def bind_err_def)

text \<open>
  C4, at an input where the code departs from it. A mission loaded from a file whose
  header has the intro text \<^verbatim>\<open>pick and place\<close> keeps that intro in memory; saved and
  loaded again (into a new controller), its steps and its name come back, but its intro is
  \<^verbatim>\<open>Mission\<close>: \<open>save_mission\<close> writes that constant instead of the stored intro.
\<close>

theorem save_mission_drops_intro:
  "missions (load_mission new_robot ''a.mission'' False
      (\<lambda>p. if p = ''a.mission''
           then Some [JsonText (JObj [(''name'', JStr ''m''), (''intro'', JStr ''pick and place'')]),
                      JsonText (JObj [(''T'', JInt 111), (''cmd'', JInt 500)])]
           else None))
     = [(JStr ''m'', \<lparr>name = JStr ''m'', intro = JStr ''pick and place'',
                      steps = [JObj [(''T'', JInt 111), (''cmd'', JInt 500)]]\<rparr>)]
   \<and> missions (load_mission new_robot ''b.mission'' False
        (snd (save_mission
           (load_mission new_robot ''a.mission'' False
              (\<lambda>p. if p = ''a.mission''
                   then Some [JsonText (JObj [(''name'', JStr ''m''), (''intro'', JStr ''pick and place'')]),
                              JsonText (JObj [(''T'', JInt 111), (''cmd'', JInt 500)])]
                   else None))
           ''b.mission'' (\<lambda>p. None))))
     = [(JStr ''m'', \<lparr>name = JStr ''m'', intro = JStr ''Mission'',
                      steps = [JObj [(''T'', JInt 111), (''cmd'', JInt 500)]]\<rparr>)]"
  by (simp add: load_mission_def load_mission_try_def save_mission_def bind_err_def
      header_get_def dict_get_default_def missions_contains_def missions_store_def
      missions_lookup_def update_mission_steps_viewer_def viewer_row_def get_step_type_def
      dict_get_def dict_contains_def json_dumps_def emit_def new_robot_def Let_def)

end
